theory Spec2Isabelle
  imports Main
begin

section \<open>Data model\<close>

text \<open>
  The supervisor of \<^verbatim>\<open>supervisor.py\<close> routes the tool calls of a language model to
  regular tools and to sub-agents, and keeps the conversation in a chat memory. The
  embedding follows the Python source function by function. Collaborators the
  source only calls (the model, the tools' bodies, the sub-agents' reasoning, the
  helpers of \<^verbatim>\<open>handoff.py\<close>) are parameters.
\<close>

datatype role = System | User | Assistant | Tool

text \<open>
  A \<^verbatim>\<open>ChatMessage\<close>. The source passes the correlation data of a tool result as
  \<^verbatim>\<open>additional_kwargs={"tool_call_id": ..., "name": ...}\<close>, a dictionary written
  here as an association list in the order of the literal.
\<close>

record message =
  role :: role
  content :: string
  additional_kwargs :: "(string \<times> string) list"

text \<open>
  A \<^verbatim>\<open>ToolSelection\<close>: one tool-call request of the model. The keyword arguments
  are a dictionary, read with \<^verbatim>\<open>.get\<close> (\<^const>\<open>map_of\<close>).
\<close>

record tool_selection =
  tool_id :: string
  tool_name :: string
  tool_kwargs :: "(string \<times> string) list"

text \<open>
  Calling a tool either returns an output, of which the source reads
  \<^verbatim>\<open>.content\<close>, or raises an exception \<^verbatim>\<open>e\<close> of class \<^verbatim>\<open>Exception\<close>, of which
  the source reads \<^verbatim>\<open>str(e)\<close>.
\<close>

datatype tool_outcome = Returns string | Raises string

record tool =
  metadata_name :: string
  tool_call :: "(string \<times> string) list \<Rightarrow> tool_outcome"

text \<open>
  A sub-agent. Its reasoning is outside the supervisor; what the supervisor can
  observe of \<^verbatim>\<open>agent.run(ctx=new_ctx, chat_history=...)\<close> is what the run does to
  the memory object bound in \<^verbatim>\<open>new_ctx\<close>. The run is modelled as the list of
  messages the agent appends to that memory with \<^verbatim>\<open>put\<close>, as a function of the
  chat history it was given. The agent leaves the binding of \<^verbatim>\<open>"memory"\<close> in
  \<^verbatim>\<open>new_ctx\<close> as it found it, and its run returns.
\<close>

record agent =
  agent_name :: string
  agent_turns :: "message list \<Rightarrow> message list"

datatype error =
  AssertionError string
  | TypeError string
  | ValueError string
  | IndexError

text \<open>
  The helpers imported from \<^verbatim>\<open>handoff.py\<close> (not among the sources) and the
  token-limited view \<^verbatim>\<open>ChatMemoryBuffer.get\<close> of the library are parameters.
\<close>

record env =
  normalize_agent_name :: "string \<Rightarrow> string"
  create_handoff_tool :: "agent \<Rightarrow> tool"
  create_handoff_back_messages :: "string \<Rightarrow> string \<Rightarrow> message list"
  memory_get :: "message list \<Rightarrow> message list"

text \<open>The attributes of a constructed \<^verbatim>\<open>Supervisor\<close>.\<close>

record supervisor =
  name :: string
  system_prompt :: "message list"
  add_handoff_back_messages :: bool
  output_mode :: string
  tools :: "tool list"
  agents :: "agent list"
  agent_names :: "string set"
  agents_by_name :: "string \<rightharpoonup> agent"
  agent_tools :: "tool list"
  tools_by_name :: "string \<rightharpoonup> tool"
  agents_by_tool_name :: "string \<rightharpoonup> tool"

section \<open>Construction\<close>

text \<open>
  The forms the constructor's \<^verbatim>\<open>system_prompt\<close> argument is tested for:
  \<^verbatim>\<open>None\<close>, a string, a list of strings, a \<^verbatim>\<open>ChatMessage\<close>, a list of them.
\<close>

datatype system_prompt_arg =
  SPNone
  | SPStr string
  | SPStrList "string list"
  | SPMessage message
  | SPMessageList "message list"

text \<open>
  Python truth value of the argument (\<^verbatim>\<open>if system_prompt:\<close>): \<^verbatim>\<open>None\<close>, the empty
  string and the empty list are false, a \<^verbatim>\<open>ChatMessage\<close> object is true.
\<close>

fun truthy :: "system_prompt_arg \<Rightarrow> bool" where
  "truthy SPNone = False"
| "truthy (SPStr s) = (s \<noteq> [])"
| "truthy (SPStrList l) = (l \<noteq> [])"
| "truthy (SPMessage m) = True"
| "truthy (SPMessageList l) = (l \<noteq> [])"

text \<open>
  Lines 58 to 70 of \<^verbatim>\<open>__init__\<close>. The first test is \<^verbatim>\<open>isinstance(system_prompt, str)\<close>.
  When it fails, the next test evaluated is \<^verbatim>\<open>isinstance(system_prompt, list[str])\<close>:
  Python's \<^verbatim>\<open>isinstance\<close> refuses a parameterized generic as its second argument and
  raises \<^verbatim>\<open>TypeError\<close>, whatever the first argument is. The branches after it are
  never reached.
\<close>

definition init_system_prompt :: "system_prompt_arg \<Rightarrow> error + message list" where
  "init_system_prompt sp =
     (if truthy sp then
        (case sp of
           SPStr s \<Rightarrow> Inr [\<lparr>role = System, content = s, additional_kwargs = []\<rparr>]
         | _ \<Rightarrow> Inl (TypeError ''isinstance() argument 2 cannot be a parameterized generic''))
      else Inr [])"

text \<open>
  \<^verbatim>\<open>_setup_agents\<close>: the loop over the agents, with the set of names and the
  dictionary built so far as its state. A name already in the dictionary raises
  \<^verbatim>\<open>ValueError\<close>.
\<close>

fun setup_agents_loop ::
  "env \<Rightarrow> agent list \<Rightarrow> string set \<times> (string \<rightharpoonup> agent) \<Rightarrow>
   error + (string set \<times> (string \<rightharpoonup> agent))" where
  "setup_agents_loop lib [] acc = Inr acc"
| "setup_agents_loop lib (a # rest) (names, by_name) =
     (let normalized_name = normalize_agent_name lib (agent_name a) in
      if normalized_name \<in> dom by_name then
        Inl (ValueError (''Duplicate agent name found: '' @ normalized_name
               @ ''. Agent names must be unique.''))
      else setup_agents_loop lib rest
             (insert normalized_name names, by_name(normalized_name \<mapsto> a)))"

definition setup_agents ::
  "env \<Rightarrow> agent list \<Rightarrow> error + (string set \<times> (string \<rightharpoonup> agent))" where
  "setup_agents lib ags = setup_agents_loop lib ags ({}, Map.empty)"

text \<open>
  A dictionary comprehension \<^verbatim>\<open>{tool.metadata.get_name(): tool for tool in ts}\<close>:
  the entries are stored in order, a later one replacing an earlier one under the
  same key, with no error.
\<close>

definition dict_by_name :: "tool list \<Rightarrow> (string \<rightharpoonup> tool)" where
  "dict_by_name ts = foldl (\<lambda>d t. d(metadata_name t \<mapsto> t)) Map.empty ts"

text \<open>
  \<^verbatim>\<open>_setup_tools\<close>: returns the extended tool list, the handoff tools and the two
  dictionaries.
\<close>

definition setup_tools ::
  "env \<Rightarrow> agent list \<Rightarrow> tool list \<Rightarrow>
   tool list \<times> tool list \<times> (string \<rightharpoonup> tool) \<times> (string \<rightharpoonup> tool)" where
  "setup_tools lib ags ts =
     (let agent_tools' = map (create_handoff_tool lib) ags;
          tools' = ts @ agent_tools'
      in (tools', agent_tools', dict_by_name tools', dict_by_name agent_tools'))"

text \<open>
  \<^verbatim>\<open>Supervisor.__init__\<close>. The first argument stands for
  \<^verbatim>\<open>llm.metadata.is_function_calling_model\<close>.
\<close>

definition init ::
  "env \<Rightarrow> bool \<Rightarrow> agent list \<Rightarrow> tool list \<Rightarrow> string \<Rightarrow> system_prompt_arg \<Rightarrow> bool \<Rightarrow> string
   \<Rightarrow> error + supervisor" where
  "init lib is_function_calling_model ags ts nm sp hb mode =
     (if \<not> is_function_calling_model then
        Inl (AssertionError ''Supervisor only supports function calling LLMs'')
      else if mode \<notin> set [''full_history'', ''last_message''] then
        Inl (AssertionError (''output_mode must be either '' @ [CHR 0x27] @ ''full_history''
               @ [CHR 0x27] @ '' or '' @ [CHR 0x27] @ ''last_message'' @ [CHR 0x27]))
      else if \<not> (length ags + length ts > 0) then
        Inl (AssertionError ''At least one agent or tool must be provided'')
      else
        (case init_system_prompt sp of
           Inl e \<Rightarrow> Inl e
         | Inr sps \<Rightarrow>
             (case setup_agents lib ags of
                Inl e \<Rightarrow> Inl e
              | Inr (names, by_name) \<Rightarrow>
                  (case setup_tools lib ags ts of
                     (tools', agent_tools', tbn, abtn) \<Rightarrow>
                       Inr \<lparr>name = nm, system_prompt = sps,
                            add_handoff_back_messages = hb, output_mode = mode,
                            tools = tools', agents = ags, agent_names = names,
                            agents_by_name = by_name, agent_tools = agent_tools',
                            tools_by_name = tbn, agents_by_tool_name = abtn\<rparr>))))"

text \<open>
  \<^verbatim>\<open>_get_llm_response\<close> passes \<^verbatim>\<open>self.system_prompt + chat_history\<close> to the model.
\<close>

definition llm_chat_history :: "supervisor \<Rightarrow> message list \<Rightarrow> message list" where
  "llm_chat_history sv chat_history = system_prompt sv @ chat_history"

section \<open>Chat memory: buffers and chat stores\<close>

text \<open>
  A \<^verbatim>\<open>ChatMemoryBuffer\<close> object holds a reference to a chat store object and a
  key; the messages live in the chat store, a dictionary from keys to message
  lists. Both kinds of object are shared by reference in the Python source, so
  they live in explicit stores indexed by addresses. A key that is absent from a
  chat store reads as the empty list (\<^verbatim>\<open>self.store.get(key, [])\<close>).
\<close>

record chat_memory_buffer =
  chat_store :: nat
  chat_store_key :: string

text \<open>
  One entry per call of \<^verbatim>\<open>agent.run\<close>: the agent, the \<^verbatim>\<open>chat_history\<close> argument
  of the call, and the content of the supervisor's memory at the moment of the
  call.
\<close>

record run_record =
  ran_agent :: string
  given_chat_history :: "message list"
  memory_at_start :: "message list"

text \<open>
  The state a workflow step works on: the two stores, the next free address, the
  buffer bound to \<^verbatim>\<open>"memory"\<close> in the supervisor's context \<^verbatim>\<open>ctx\<close>, and the calls
  of \<^verbatim>\<open>agent.run\<close> made so far.
\<close>

record wf_state =
  buffers :: "nat \<Rightarrow> chat_memory_buffer"
  chat_stores :: "nat \<Rightarrow> string \<Rightarrow> message list"
  next_addr :: nat
  ctx_memory :: nat
  agent_runs :: "run_record list"

text \<open>\<^verbatim>\<open>memory.get_all()\<close>: the messages under the buffer's key in its chat store.\<close>

definition get_all :: "wf_state \<Rightarrow> nat \<Rightarrow> message list" where
  "get_all s m = chat_stores s (chat_store (buffers s m)) (chat_store_key (buffers s m))"

text \<open>
  \<^verbatim>\<open>memory.put(msg)\<close> (and \<^verbatim>\<open>aput\<close>): \<^verbatim>\<open>chat_store.add_message(key, msg)\<close> appends
  to the list under the key, in the chat store the buffer refers to.
\<close>

definition put :: "wf_state \<Rightarrow> nat \<Rightarrow> message \<Rightarrow> wf_state" where
  "put s m msg =
     (let a = chat_store (buffers s m); k = chat_store_key (buffers s m) in
      s\<lparr>chat_stores := (chat_stores s)(a := (chat_stores s a)(k := chat_stores s a k @ [msg]))\<rparr>)"

text \<open>
  \<^verbatim>\<open>memo.chat_store.delete_message(memo.chat_store_key, idx)\<close>: removes the
  message at the index; an index past the end leaves the list as it is.
\<close>

definition delete_message :: "wf_state \<Rightarrow> nat \<Rightarrow> nat \<Rightarrow> wf_state" where
  "delete_message s m idx =
     (let a = chat_store (buffers s m); k = chat_store_key (buffers s m);
          msgs = chat_stores s a k
      in if idx \<ge> length msgs then s
         else s\<lparr>chat_stores :=
                  (chat_stores s)(a := (chat_stores s a)(k := take idx msgs @ drop (Suc idx) msgs))\<rparr>)"

text \<open>
  \<^verbatim>\<open>memory.model_copy()\<close>, the method every pydantic model has, with its defaults
  \<^verbatim>\<open>update=None, deep=False\<close>: a new object whose fields hold the same values as
  the original's. The new buffer is a distinct object at a fresh address; its
  \<^verbatim>\<open>chat_store\<close> field is the same reference as the original's.
\<close>

definition model_copy :: "wf_state \<Rightarrow> nat \<Rightarrow> nat \<times> wf_state" where
  "model_copy s m =
     (let a = next_addr s in
      (a, s\<lparr>buffers := (buffers s)(a := buffers s m), next_addr := Suc a\<rparr>))"

section \<open>Handling a turn's tool calls\<close>

text \<open>\<^verbatim>\<open>_update_memory\<close>: returns the state and the message list it was given, cleared.\<close>

definition update_memory :: "wf_state \<Rightarrow> message list \<Rightarrow> wf_state \<times> message list" where
  "update_memory s messages =
     (if messages = [] then (s, messages)
      else
        (let memory = ctx_memory s;
             s' = foldl (\<lambda>st msg. put st memory msg) s messages
         in (s'\<lparr>ctx_memory := memory\<rparr>, [])))"

text \<open>\<^verbatim>\<open>_get_input_event\<close>: the payload of the \<^verbatim>\<open>InputEvent\<close>, \<^verbatim>\<open>memory.get()\<close>.\<close>

definition get_input_event :: "env \<Rightarrow> wf_state \<Rightarrow> message list" where
  "get_input_event lib s = memory_get lib (get_all s (ctx_memory s))"

text \<open>
  \<^verbatim>\<open>_split_tool_calls\<close>: the handoffs are the calls whose name is the name of one
  of the agent tools; the regular calls are those not in the list of handoffs.
\<close>

definition split_tool_calls ::
  "supervisor \<Rightarrow> tool_selection list \<Rightarrow> tool_selection list \<times> tool_selection list" where
  "split_tool_calls sv tool_calls =
     (let agent_handoffs =
            filter (\<lambda>tc. list_ex (\<lambda>at. tool_name tc = metadata_name at) (agent_tools sv))
              tool_calls;
          regular_tools = filter (\<lambda>tc. tc \<notin> set agent_handoffs) tool_calls
      in (agent_handoffs, regular_tools))"

definition create_tool_error_message :: "string \<Rightarrow> (string \<times> string) list \<Rightarrow> message" where
  "create_tool_error_message c kwargs = \<lparr>role = Tool, content = c, additional_kwargs = kwargs\<rparr>"

text \<open>
  \<^verbatim>\<open>_process_regular_tools\<close>: the loop over the regular calls, appending to
  \<^verbatim>\<open>tool_msgs\<close>. The body of the \<^verbatim>\<open>try\<close> is the call of the tool and the append of
  its output; the \<^verbatim>\<open>except Exception\<close> branch appends the error message.
\<close>

fun process_regular_tools ::
  "supervisor \<Rightarrow> tool_selection list \<Rightarrow> message list \<Rightarrow> message list" where
  "process_regular_tools sv [] tool_msgs = tool_msgs"
| "process_regular_tools sv (tc # rest) tool_msgs =
     (let tname = tool_name tc;
          kwargs = [(''tool_call_id'', tool_id tc), (''name'', tname)]
      in case tools_by_name sv tname of
           None \<Rightarrow>
             process_regular_tools sv rest
               (tool_msgs @ [create_tool_error_message
                               (''Tool '' @ tname @ '' does not exist'') kwargs])
         | Some t \<Rightarrow>
             (case tool_call t (tool_kwargs tc) of
                Returns c \<Rightarrow>
                  process_regular_tools sv rest
                    (tool_msgs @ [\<lparr>role = Tool, content = c, additional_kwargs = kwargs\<rparr>])
              | Raises e \<Rightarrow>
                  process_regular_tools sv rest
                    (tool_msgs @ [create_tool_error_message
                                    (''Encountered error in tool call: '' @ e) kwargs])))"

text \<open>
  \<^verbatim>\<open>agent.run(ctx=new_ctx, chat_history=...)\<close> for the memory \<^verbatim>\<open>m\<close> bound in
  \<^verbatim>\<open>new_ctx\<close>: the call is recorded, then the agent appends its messages to \<^verbatim>\<open>m\<close>.
\<close>

definition agent_run :: "wf_state \<Rightarrow> agent \<Rightarrow> nat \<Rightarrow> message list \<Rightarrow> wf_state" where
  "agent_run s ag m chat_history =
     foldl (\<lambda>st msg. put st m msg)
       (s\<lparr>agent_runs := agent_runs s @
            [\<lparr>ran_agent = agent_name ag, given_chat_history = chat_history,
              memory_at_start = get_all s (ctx_memory s)\<rparr>]\<rparr>)
       (agent_turns ag chat_history)"

text \<open>
  \<^verbatim>\<open>_run_agent\<close>, first half (up to and including \<^verbatim>\<open>agent.run\<close>): returns the
  supervisor's buffer \<^verbatim>\<open>memory\<close>, the buffer bound in \<^verbatim>\<open>new_ctx\<close>, and the state.
  The lines that would insert the agent's system prompt at index 0 are commented
  out in the source, so nothing is inserted.
\<close>

definition run_agent_invoke :: "env \<Rightarrow> wf_state \<Rightarrow> agent \<Rightarrow> nat \<times> nat \<times> wf_state" where
  "run_agent_invoke lib s ag =
     (let memory = ctx_memory s;
          (new_ctx_memory, s1) = model_copy s memory;
          s2 = agent_run s1 ag new_ctx_memory (memory_get lib (get_all s1 memory))
      in (memory, new_ctx_memory, s2))"

text \<open>
  \<^verbatim>\<open>_run_agent\<close>, second half: the update of the supervisor's memory by output
  mode. \<^verbatim>\<open>memo.get_all()[-1]\<close> raises \<^verbatim>\<open>IndexError\<close> on an empty list.
\<close>

definition run_agent_merge :: "supervisor \<Rightarrow> nat \<Rightarrow> nat \<Rightarrow> wf_state \<Rightarrow> error + wf_state" where
  "run_agent_merge sv memory new_ctx_memory s =
     (if output_mode sv = ''full_history'' then
        (let memo = new_ctx_memory;
             s' = delete_message s memo 0
         in Inr (s'\<lparr>ctx_memory := memo\<rparr>))
      else if output_mode sv = ''last_message'' then
        (let memo = new_ctx_memory in
         case get_all s memo of
           [] \<Rightarrow> Inl IndexError
         | _ # _ \<Rightarrow> Inr (put s memory (last (get_all s memo))))
      else Inr s)"

text \<open>\<^verbatim>\<open>_run_agent\<close>: the two halves in sequence.\<close>

definition run_agent :: "env \<Rightarrow> supervisor \<Rightarrow> wf_state \<Rightarrow> agent \<Rightarrow> error + wf_state" where
  "run_agent lib sv s ag =
     (case run_agent_invoke lib s ag of
        (memory, new_ctx_memory, s2) \<Rightarrow> run_agent_merge sv memory new_ctx_memory s2)"

text \<open>\<^verbatim>\<open>str.removeprefix\<close>.\<close>

definition removeprefix :: "string \<Rightarrow> string \<Rightarrow> string" where
  "removeprefix str p = (if take (length p) str = p then drop (length p) str else str)"

text \<open>
  An f-string field for the result of \<^verbatim>\<open>parameters.get(...)\<close>: the value, or
  \<^verbatim>\<open>None\<close> printed as text.
\<close>

definition fmt :: "string option \<Rightarrow> string" where
  "fmt v = (case v of None \<Rightarrow> ''None'' | Some x \<Rightarrow> x)"

text \<open>\<^verbatim>\<open>sep.join(xs)\<close>.\<close>

fun join :: "string \<Rightarrow> string list \<Rightarrow> string" where
  "join sep [] = []"
| "join sep [x] = x"
| "join sep (x # y # ys) = x @ sep @ join sep (y # ys)"

text \<open>
  \<^verbatim>\<open>_process_agent_handoff\<close>: returns the state and \<^verbatim>\<open>tool_msgs\<close>, or the error of
  the agent run.
\<close>

definition process_agent_handoff ::
  "env \<Rightarrow> supervisor \<Rightarrow> wf_state \<Rightarrow> tool_selection \<Rightarrow> message list
   \<Rightarrow> error + (wf_state \<times> message list)" where
  "process_agent_handoff lib sv s handoff tool_msgs =
     (let handoff_agent = removeprefix (tool_name handoff) ''transfer_to_'';
          kwargs = [(''tool_call_id'', tool_id handoff), (''name'', tool_name handoff)]
      in case agents_by_name sv handoff_agent of
           None \<Rightarrow>
             Inr (s, tool_msgs @
                   [\<lparr>role = Tool,
                     content = ''Agent '' @ tool_name handoff @ '' does not exist'',
                     additional_kwargs = kwargs\<rparr>])
         | Some ag \<Rightarrow>
             (let parameters = tool_kwargs handoff;
                  task = map_of parameters ''task'';
                  reason = map_of parameters ''reason'';
                  tool_msgs1 = tool_msgs @
                    [\<lparr>role = Tool,
                      content = ''Successfully transferred to '' @ agent_name ag
                        @ '' for task: '' @ fmt task @ '', reason: '' @ fmt reason,
                      additional_kwargs = kwargs\<rparr>];
                  (s1, tool_msgs2) = update_memory s tool_msgs1
              in case run_agent lib sv s1 ag of
                   Inl e \<Rightarrow> Inl e
                 | Inr s2 \<Rightarrow>
                     if add_handoff_back_messages sv then
                       (let handoff_messages =
                              create_handoff_back_messages lib (agent_name ag) (name sv)
                        in Inr (update_memory s2 (tool_msgs2 @ handoff_messages)))
                     else Inr (s2, tool_msgs2)))"

text \<open>\<^verbatim>\<open>_process_agent_handoffs\<close>.\<close>

definition process_agent_handoffs ::
  "env \<Rightarrow> supervisor \<Rightarrow> wf_state \<Rightarrow> tool_selection list \<Rightarrow> message list
   \<Rightarrow> error + (wf_state \<times> message list)" where
  "process_agent_handoffs lib sv s agent_handoffs tool_msgs =
     (if length agent_handoffs > 1 then
        (let handoff_names = map tool_name agent_handoffs in
         Inr (s, tool_msgs @
               map (\<lambda>handoff.
                      \<lparr>role = Tool,
                       content = ''Multiple agent handoff tools selected: ''
                         @ join '', '' handoff_names @ '' - please select only one.'',
                       additional_kwargs =
                         [(''tool_call_id'', tool_id handoff), (''name'', tool_name handoff)]\<rparr>)
                 agent_handoffs))
      else if length agent_handoffs = 1 then
        process_agent_handoff lib sv s (agent_handoffs ! 0) tool_msgs
      else Inr (s, tool_msgs))"

text \<open>
  \<^verbatim>\<open>handle_tool_calls\<close>: returns the state and the payload of the \<^verbatim>\<open>InputEvent\<close>.
\<close>

definition handle_tool_calls ::
  "env \<Rightarrow> supervisor \<Rightarrow> wf_state \<Rightarrow> tool_selection list
   \<Rightarrow> error + (wf_state \<times> message list)" where
  "handle_tool_calls lib sv s tool_calls =
     (case split_tool_calls sv tool_calls of
        (agent_handoffs, regular_tools) \<Rightarrow>
          (let tool_msgs = process_regular_tools sv regular_tools [] in
           case process_agent_handoffs lib sv s agent_handoffs tool_msgs of
             Inl e \<Rightarrow> Inl e
           | Inr (s1, tool_msgs1) \<Rightarrow>
               (let (s2, tool_msgs2) = update_memory s1 tool_msgs1
                in Inr (s2, get_input_event lib s2))))"

section \<open>Auxiliary definitions and a concrete configuration\<close>


text \<open>
  The rest of this section is a concrete configuration on which the theorems are
  instantiated.
\<close>

text \<open>
  Modelled from the spec: the helpers of \<^verbatim>\<open>handoff.py\<close>, which is not among the
  sources. Agent names are normalized by underscoring, the handoff tool of an
  agent is named \<^verbatim>\<open>transfer_to_<agent>\<close> after the normalized name, and the
  handoff-back messages are a pair of messages saying that control returned to
  the supervisor. The memory view returns the whole history (no token limit is
  reached).
\<close>

definition underscored :: "string \<Rightarrow> string" where
  "underscored = map (\<lambda>c. if c = CHR '' '' then CHR ''_'' else c)"

definition ex_env :: env where
  "ex_env =
     \<lparr>normalize_agent_name = underscored,
      create_handoff_tool =
        (\<lambda>a. \<lparr>metadata_name = ''transfer_to_'' @ underscored (agent_name a),
                tool_call = (\<lambda>kw. Returns [])\<rparr>),
      create_handoff_back_messages =
        (\<lambda>a sn. [\<lparr>role = Assistant, content = ''Transferring back to '' @ sn,
                    additional_kwargs = []\<rparr>,
                  \<lparr>role = Tool, content = ''Successfully transferred back to '' @ sn,
                    additional_kwargs = []\<rparr>]),
      memory_get = (\<lambda>msgs. msgs)\<rparr>"

text \<open>Two tools, one that returns and one that raises.\<close>

definition ex_search :: tool where
  "ex_search = \<lparr>metadata_name = ''search'', tool_call = (\<lambda>kw. Returns ''found'')\<rparr>"

definition ex_fragile :: tool where
  "ex_fragile = \<lparr>metadata_name = ''fragile'', tool_call = (\<lambda>kw. Raises ''boom'')\<rparr>"

text \<open>An agent that appends two messages, whatever it is given.\<close>

definition ex_working :: message where
  "ex_working = \<lparr>role = Assistant, content = ''working'', additional_kwargs = []\<rparr>"

definition ex_done :: message where
  "ex_done = \<lparr>role = Assistant, content = ''done'', additional_kwargs = []\<rparr>"

definition ex_agent :: agent where
  "ex_agent = \<lparr>agent_name = ''researcher'', agent_turns = (\<lambda>h. [ex_working, ex_done])\<rparr>"

text \<open>The supervisor constructed from them, for an output mode.\<close>

definition ex_sv :: "string \<Rightarrow> supervisor" where
  "ex_sv mode =
     projr (init ex_env True [ex_agent] [ex_search, ex_fragile] ''supervisor''
              (SPStr ''be helpful'') True mode)"

definition ex_user :: message where
  "ex_user = \<lparr>role = User, content = ''hi'', additional_kwargs = []\<rparr>"

text \<open>
  A state with one buffer at address 0 over the chat store at address 0, which
  holds the user's message.
\<close>

definition ex_state :: wf_state where
  "ex_state =
     \<lparr>buffers = (\<lambda>a. \<lparr>chat_store = 0, chat_store_key = ''chat_history''\<rparr>),
      chat_stores = (\<lambda>a k. if a = 0 \<and> k = ''chat_history'' then [ex_user] else []),
      next_addr = 1,
      ctx_memory = 0,
      agent_runs = []\<rparr>"


definition ex_two_handoffs :: "tool_selection list" where
  "ex_two_handoffs =
     [\<lparr>tool_id = ''h1'', tool_name = ''transfer_to_researcher'', tool_kwargs = []\<rparr>,
      \<lparr>tool_id = ''c1'', tool_name = ''send_email'', tool_kwargs = []\<rparr>,
      \<lparr>tool_id = ''h2'', tool_name = ''transfer_to_researcher'', tool_kwargs = []\<rparr>]"

definition ex_handoff :: tool_selection where
  "ex_handoff =
     \<lparr>tool_id = ''h1'', tool_name = ''transfer_to_researcher'',
      tool_kwargs = [(''task'', ''find papers''), (''reason'', ''needs research'')]\<rparr>"


text \<open>
  A variant of the helpers in which the handoff tool is named after the agent's
  name as given, not after the normalized name. For an agent whose name contains
  a blank, the name left after removing \<^verbatim>\<open>transfer_to_\<close> from the handoff tool's name
  is then no key of \<^verbatim>\<open>agents_by_name\<close>.
\<close>

definition ex_raw_env :: env where
  "ex_raw_env =
     ex_env\<lparr>create_handoff_tool :=
        (\<lambda>a. \<lparr>metadata_name = ''transfer_to_'' @ agent_name a,
                tool_call = (\<lambda>kw. Returns [])\<rparr>)\<rparr>"

definition ex_spaced_agent :: agent where
  "ex_spaced_agent = \<lparr>agent_name = ''web researcher'', agent_turns = (\<lambda>h. [ex_done])\<rparr>"

definition ex_raw_sv :: supervisor where
  "ex_raw_sv =
     projr (init ex_raw_env True [ex_spaced_agent] [] ''supervisor'' SPNone True
              ''full_history'')"


text \<open>
  The messages of a turn in which the model hands off to the researcher, and the
  state whose memory (one buffer at address 0 over the chat store at address 0)
  holds given messages.
\<close>

definition ex_assistant :: message where
  "ex_assistant = \<lparr>role = Assistant, content = ''asking the researcher'', additional_kwargs = []\<rparr>"

definition ex_success :: message where
  "ex_success =
     \<lparr>role = Tool,
      content = ''Successfully transferred to researcher for task: find papers, reason: needs research'',
      additional_kwargs = [(''tool_call_id'', ''h1''), (''name'', ''transfer_to_researcher'')]\<rparr>"

definition ex_memory_state :: "message list \<Rightarrow> wf_state" where
  "ex_memory_state msgs =
     \<lparr>buffers = (\<lambda>a. \<lparr>chat_store = 0, chat_store_key = ''chat_history''\<rparr>),
      chat_stores = (\<lambda>a k. if a = 0 \<and> k = ''chat_history'' then msgs else []),
      next_addr = 1,
      ctx_memory = 0,
      agent_runs = []\<rparr>"

text \<open>
  A second tool named \<^verbatim>\<open>search\<close>, and a tool named like the handoff tool of
  \<^const>\<open>ex_agent\<close>.
\<close>

definition ex_search_other :: tool where
  "ex_search_other = \<lparr>metadata_name = ''search'', tool_call = (\<lambda>kw. Returns ''other'')\<rparr>"

definition ex_shadow :: tool where
  "ex_shadow =
     \<lparr>metadata_name = ''transfer_to_researcher'', tool_call = (\<lambda>kw. Returns ''shadow'')\<rparr>"

section \<open>Memory lemmas\<close>

lemma buffers_put: "buffers (put s m msg) = buffers s"
  by (simp add: put_def Let_def)

lemma ctx_memory_put: "ctx_memory (put s m msg) = ctx_memory s"
  by (simp add: put_def Let_def)

lemma agent_runs_put: "agent_runs (put s m msg) = agent_runs s"
  by (simp add: put_def Let_def)

text \<open>
  A \<^const>\<open>put\<close> through one buffer is seen through every buffer that refers to the
  same chat store under the same key, and through no other.
\<close>

lemma get_all_put:
  "get_all (put s m msg) m' =
     (if chat_store (buffers s m') = chat_store (buffers s m)
         \<and> chat_store_key (buffers s m') = chat_store_key (buffers s m)
      then get_all s m' @ [msg] else get_all s m')"
  by (simp add: put_def get_all_def Let_def)

lemma buffers_puts: "buffers (foldl (\<lambda>st msg. put st m msg) s msgs) = buffers s"
  by (induction msgs arbitrary: s) (simp_all add: buffers_put)

lemma ctx_memory_puts: "ctx_memory (foldl (\<lambda>st msg. put st m msg) s msgs) = ctx_memory s"
  by (induction msgs arbitrary: s) (simp_all add: ctx_memory_put)

lemma agent_runs_puts: "agent_runs (foldl (\<lambda>st msg. put st m msg) s msgs) = agent_runs s"
  by (induction msgs arbitrary: s) (simp_all add: agent_runs_put)

lemma get_all_puts:
  "get_all (foldl (\<lambda>st msg. put st m msg) s msgs) m' =
     (if chat_store (buffers s m') = chat_store (buffers s m)
         \<and> chat_store_key (buffers s m') = chat_store_key (buffers s m)
      then get_all s m' @ msgs else get_all s m')"
  by (induction msgs arbitrary: s) (simp_all add: get_all_put buffers_put)

lemma get_all_ctx_memory_update: "get_all (s\<lparr>ctx_memory := m\<rparr>) x = get_all s x"
  by (simp add: get_all_def)

lemma update_memory_get_all:
  "get_all (fst (update_memory s msgs)) m =
     (if chat_store (buffers s m) = chat_store (buffers s (ctx_memory s))
         \<and> chat_store_key (buffers s m) = chat_store_key (buffers s (ctx_memory s))
      then get_all s m @ msgs else get_all s m)"
  by (simp add: update_memory_def Let_def get_all_ctx_memory_update get_all_puts)

lemma update_memory_ctx: "ctx_memory (fst (update_memory s msgs)) = ctx_memory s"
  by (simp add: update_memory_def Let_def)

lemma update_memory_runs: "agent_runs (fst (update_memory s msgs)) = agent_runs s"
  by (simp add: update_memory_def Let_def agent_runs_puts)

lemma update_memory_buffers: "buffers (fst (update_memory s msgs)) = buffers s"
  by (simp add: update_memory_def Let_def buffers_puts)

lemma update_memory_snd: "snd (update_memory s msgs) = []"
  by (simp add: update_memory_def Let_def)

section \<open>The tool dispatcher\<close>



text \<open>The example supervisor is what the constructor returns; its fields.\<close>

lemma ex_sv_init:
  "init ex_env True [ex_agent] [ex_search, ex_fragile] ''supervisor''
     (SPStr ''be helpful'') True mode = Inr (ex_sv mode)"
  if "mode = ''full_history'' \<or> mode = ''last_message''"
  using that
  by (auto simp add: ex_sv_def init_def init_system_prompt_def setup_agents_def
        setup_tools_def Let_def)

lemma ex_sv_fields:
  "agent_tools (ex_sv mode) = [create_handoff_tool ex_env ex_agent]"
  "tools_by_name (ex_sv mode) ''send_email'' = None"
  "tools_by_name (ex_sv mode) ''fragile'' = Some ex_fragile"
  "agents_by_name (ex_sv mode) ''researcher'' = Some ex_agent"
  "output_mode (ex_sv mode) = mode"
  "add_handoff_back_messages (ex_sv mode) = True"
  "name (ex_sv mode) = ''supervisor''"
  if "mode = ''full_history'' \<or> mode = ''last_message''"
  using that
  by (auto simp add: ex_sv_def init_def init_system_prompt_def setup_agents_def
        setup_tools_def dict_by_name_def ex_env_def ex_agent_def underscored_def Let_def
        ex_search_def ex_fragile_def)






section \<open>Running an agent\<close>

lemma update_memory_pair: "update_memory s msgs = (fst (update_memory s msgs), [])"
  by (simp add: update_memory_def Let_def)

lemma get_all_model_copy_old:
  "get_all (snd (model_copy s m)) m = get_all s m"
  by (simp add: model_copy_def get_all_def Let_def)

lemma buffers_model_copy_new:
  "buffers (snd (model_copy s m)) (fst (model_copy s m)) = buffers s m"
  by (simp add: model_copy_def Let_def)

lemma buffers_model_copy_old:
  "buffers (snd (model_copy s m)) m = buffers s m"
  by (simp add: model_copy_def Let_def)

lemma ctx_memory_model_copy: "ctx_memory (snd (model_copy s m)) = ctx_memory s"
  by (simp add: model_copy_def Let_def)

lemma agent_runs_model_copy: "agent_runs (snd (model_copy s m)) = agent_runs s"
  by (simp add: model_copy_def Let_def)

lemma agent_runs_agent_run:
  "agent_runs (agent_run s ag m ch) =
     agent_runs s @ [\<lparr>ran_agent = agent_name ag, given_chat_history = ch,
                      memory_at_start = get_all s (ctx_memory s)\<rparr>]"
  by (simp add: agent_run_def agent_runs_puts)

lemma get_all_agent_runs_update: "get_all (s\<lparr>agent_runs := r\<rparr>) x = get_all s x"
  by (simp add: get_all_def)

lemma get_all_agent_run:
  "get_all (agent_run s ag m ch) m' =
     (if chat_store (buffers s m') = chat_store (buffers s m)
         \<and> chat_store_key (buffers s m') = chat_store_key (buffers s m)
      then get_all s m' @ agent_turns ag ch else get_all s m')"
  by (simp add: agent_run_def get_all_puts get_all_agent_runs_update)

lemma buffers_agent_run: "buffers (agent_run s ag m ch) = buffers s"
  by (simp add: agent_run_def buffers_puts)

lemma ctx_memory_agent_run: "ctx_memory (agent_run s ag m ch) = ctx_memory s"
  by (simp add: agent_run_def ctx_memory_puts)

lemma run_agent_invoke_eq:
  "run_agent_invoke lib s ag =
     (ctx_memory s, fst (model_copy s (ctx_memory s)),
      agent_run (snd (model_copy s (ctx_memory s))) ag (fst (model_copy s (ctx_memory s)))
        (memory_get lib (get_all s (ctx_memory s))))"
  by (simp add: run_agent_invoke_def Let_def get_all_model_copy_old case_prod_beta)

lemma get_all_same_buffer:
  "buffers s m = buffers s m' \<Longrightarrow> get_all s m = get_all s m'"
  by (simp add: get_all_def)

lemma run_agent_invoke_shared:
  assumes "run_agent_invoke lib s ag = (memory, new_ctx_memory, s2)"
  shows "memory = ctx_memory s" and "ctx_memory s2 = ctx_memory s"
    and "buffers s2 new_ctx_memory = buffers s2 memory"
    and "buffers s2 memory = buffers s memory"
    and "get_all s2 memory = get_all s memory @ agent_turns ag (memory_get lib (get_all s memory))"
    and "agent_runs s2 = agent_runs s @
       [\<lparr>ran_agent = agent_name ag,
         given_chat_history = memory_get lib (get_all s memory),
         memory_at_start = get_all s memory\<rparr>]"
proof -
  let ?c = "model_copy s (ctx_memory s)"
  from assms have m: "memory = ctx_memory s" and n: "new_ctx_memory = fst ?c"
    and s2: "s2 = agent_run (snd ?c) ag (fst ?c) (memory_get lib (get_all s (ctx_memory s)))"
    by (auto simp add: run_agent_invoke_eq)
  show "memory = ctx_memory s" by (rule m)
  show "ctx_memory s2 = ctx_memory s"
    by (simp add: s2 ctx_memory_agent_run ctx_memory_model_copy)
  show "buffers s2 new_ctx_memory = buffers s2 memory"
    by (simp add: s2 m n buffers_agent_run buffers_model_copy_new buffers_model_copy_old)
  show "buffers s2 memory = buffers s memory"
    by (simp add: s2 m buffers_agent_run buffers_model_copy_old)
  show "get_all s2 memory = get_all s memory @ agent_turns ag (memory_get lib (get_all s memory))"
    by (simp add: s2 m get_all_agent_run buffers_model_copy_new buffers_model_copy_old
          get_all_model_copy_old)
  show "agent_runs s2 = agent_runs s @
       [\<lparr>ran_agent = agent_name ag,
         given_chat_history = memory_get lib (get_all s memory),
         memory_at_start = get_all s memory\<rparr>]"
    by (simp add: s2 m agent_runs_agent_run agent_runs_model_copy ctx_memory_model_copy
          get_all_model_copy_old)
qed

lemma agent_runs_delete_message: "agent_runs (delete_message s m i) = agent_runs s"
  by (simp add: delete_message_def Let_def)

lemma buffers_delete_message: "buffers (delete_message s m i) = buffers s"
  by (simp add: delete_message_def Let_def)

lemma get_all_delete_message_0:
  "get_all (delete_message s m 0) m = tl (get_all s m)"
  by (cases "get_all s m") (auto simp add: delete_message_def get_all_def Let_def)

lemma run_agent_full_history:
  assumes "output_mode sv = ''full_history''"
  shows "\<exists>s'. run_agent lib sv s ag = Inr s'
     \<and> get_all s' (ctx_memory s') =
         tl (get_all s (ctx_memory s)
             @ agent_turns ag (memory_get lib (get_all s (ctx_memory s))))
     \<and> agent_runs s' = agent_runs s @
         [\<lparr>ran_agent = agent_name ag,
           given_chat_history = memory_get lib (get_all s (ctx_memory s)),
           memory_at_start = get_all s (ctx_memory s)\<rparr>]"
proof -
  obtain memory n s2 where inv: "run_agent_invoke lib s ag = (memory, n, s2)"
    by (cases "run_agent_invoke lib s ag") auto
  note sh = run_agent_invoke_shared [OF inv]
  have same: "get_all s2 n = get_all s2 memory"
    by (rule get_all_same_buffer) (rule sh(3))
  let ?s' = "(delete_message s2 n 0)\<lparr>ctx_memory := n\<rparr>"
  have run: "run_agent lib sv s ag = Inr ?s'"
    by (simp add: run_agent_def inv run_agent_merge_def assms Let_def)
  have "get_all ?s' (ctx_memory ?s') = tl (get_all s2 n)"
    by (simp add: get_all_ctx_memory_update get_all_delete_message_0)
  with same sh(1,5) have mem: "get_all ?s' (ctx_memory ?s') =
         tl (get_all s (ctx_memory s)
             @ agent_turns ag (memory_get lib (get_all s (ctx_memory s))))"
    by simp
  have "agent_runs ?s' = agent_runs s2"
    by (simp add: agent_runs_delete_message)
  with sh(1,6) run mem show ?thesis by simp
qed

lemma run_agent_last_message:
  assumes "output_mode sv = ''last_message''" and "get_all s (ctx_memory s) \<noteq> []"
  shows "\<exists>s'. run_agent lib sv s ag = Inr s'
     \<and> ctx_memory s' = ctx_memory s
     \<and> get_all s' (ctx_memory s') =
         (let after = get_all s (ctx_memory s)
                 @ agent_turns ag (memory_get lib (get_all s (ctx_memory s)))
          in after @ [last after])
     \<and> agent_runs s' = agent_runs s @
         [\<lparr>ran_agent = agent_name ag,
           given_chat_history = memory_get lib (get_all s (ctx_memory s)),
           memory_at_start = get_all s (ctx_memory s)\<rparr>]"
proof -
  obtain memory n s2 where inv: "run_agent_invoke lib s ag = (memory, n, s2)"
    by (cases "run_agent_invoke lib s ag") auto
  note sh = run_agent_invoke_shared [OF inv]
  have same: "get_all s2 n = get_all s2 memory"
    by (rule get_all_same_buffer) (rule sh(3))
  let ?after = "get_all s (ctx_memory s)
                 @ agent_turns ag (memory_get lib (get_all s (ctx_memory s)))"
  from same sh(1,5) have after: "get_all s2 n = ?after" by simp
  with assms(2) have ne: "get_all s2 n \<noteq> []" by simp
  let ?s' = "put s2 memory (last ?after)"
  from ne have "run_agent_merge sv memory n s2 = Inr (put s2 memory (last (get_all s2 n)))"
    by (simp add: run_agent_merge_def assms(1) Let_def split: list.split)
  with after have run: "run_agent lib sv s ag = Inr ?s'"
    by (simp add: run_agent_def inv)
  have c: "ctx_memory ?s' = ctx_memory s"
    by (simp add: ctx_memory_put sh(2))
  have "get_all ?s' memory = get_all s2 memory @ [last ?after]"
    by (simp add: get_all_put)
  with same after sh(1) c have mem: "get_all ?s' (ctx_memory ?s') = ?after @ [last ?after]"
    by simp
  have "agent_runs ?s' = agent_runs s2" by (simp add: agent_runs_put)
  with sh(1,6) run mem c show ?thesis by (simp add: Let_def)
qed

lemma run_agent_runs:
  assumes "get_all s (ctx_memory s) \<noteq> []"
  shows "\<exists>s'. run_agent lib sv s ag = Inr s'
     \<and> agent_runs s' = agent_runs s @
         [\<lparr>ran_agent = agent_name ag,
           given_chat_history = memory_get lib (get_all s (ctx_memory s)),
           memory_at_start = get_all s (ctx_memory s)\<rparr>]"
proof -
  consider (full) "output_mode sv = ''full_history''"
    | (last) "output_mode sv = ''last_message''"
    | (other) "output_mode sv \<noteq> ''full_history''" "output_mode sv \<noteq> ''last_message''"
    by blast
  then show ?thesis
  proof cases
    case full
    from run_agent_full_history [OF full, of lib s ag] show ?thesis by blast
  next
    case last
    from run_agent_last_message [OF last assms, of lib ag] show ?thesis by blast
  next
    case other
    obtain memory n s2 where inv: "run_agent_invoke lib s ag = (memory, n, s2)"
      by (cases "run_agent_invoke lib s ag") auto
    note sh = run_agent_invoke_shared [OF inv]
    have "run_agent lib sv s ag = Inr s2"
      by (simp add: run_agent_def inv run_agent_merge_def other)
    with sh(1,6) show ?thesis by simp
  qed
qed

lemma process_agent_handoff_known:
  assumes "agents_by_name sv (removeprefix (tool_name h) ''transfer_to_'') = Some ag"
  shows "process_agent_handoff lib sv s h tool_msgs =
     (case run_agent lib sv
             (fst (update_memory s (tool_msgs @
                [\<lparr>role = Tool,
                  content = ''Successfully transferred to '' @ agent_name ag
                    @ '' for task: '' @ fmt (map_of (tool_kwargs h) ''task'')
                    @ '', reason: '' @ fmt (map_of (tool_kwargs h) ''reason''),
                  additional_kwargs =
                    [(''tool_call_id'', tool_id h), (''name'', tool_name h)]\<rparr>]))) ag of
        Inl e \<Rightarrow> Inl e
      | Inr s2 \<Rightarrow>
          Inr (if add_handoff_back_messages sv
               then fst (update_memory s2
                      (create_handoff_back_messages lib (agent_name ag) (name sv)))
               else s2, []))"
  by (simp add: process_agent_handoff_def assms Let_def case_prod_beta update_memory_snd
        prod_eq_iff split: sum.split)

text \<open>
  A turn with exactly one handoff to a registered agent, unfolded up to the run of
  the agent, and the memory after such a turn for each output mode.
\<close>

lemma single_handoff_unfold:
  assumes "fst (split_tool_calls sv tool_calls) = [h]"
    and "agents_by_name sv (removeprefix (tool_name h) ''transfer_to_'') = Some ag"
  shows "handle_tool_calls lib sv s tool_calls =
     (case run_agent lib sv
             (fst (update_memory s
                (process_regular_tools sv (snd (split_tool_calls sv tool_calls)) [] @
                 [\<lparr>role = Tool,
                   content = ''Successfully transferred to '' @ agent_name ag
                     @ '' for task: '' @ fmt (map_of (tool_kwargs h) ''task'')
                     @ '', reason: '' @ fmt (map_of (tool_kwargs h) ''reason''),
                   additional_kwargs =
                     [(''tool_call_id'', tool_id h), (''name'', tool_name h)]\<rparr>]))) ag of
        Inl e \<Rightarrow> Inl e
      | Inr s2 \<Rightarrow>
          (let s3 = (if add_handoff_back_messages sv
                     then fst (update_memory s2
                            (create_handoff_back_messages lib (agent_name ag) (name sv)))
                     else s2)
           in Inr (s3, get_input_event lib s3)))"
proof -
  obtain hs rs where sp: "split_tool_calls sv tool_calls = (hs, rs)"
    by (cases "split_tool_calls sv tool_calls")
  with assms(1) have hs: "hs = [h]" by simp
  have "process_agent_handoffs lib sv s hs (process_regular_tools sv rs [])
      = process_agent_handoff lib sv s h (process_regular_tools sv rs [])"
    by (simp add: process_agent_handoffs_def hs)
  then show ?thesis
    unfolding handle_tool_calls_def sp process_agent_handoff_known [OF assms(2)]
    by (simp add: Let_def update_memory_def split: sum.split)
qed

lemma single_handoff_full_history:
  assumes "fst (split_tool_calls sv tool_calls) = [h]"
    and "agents_by_name sv (removeprefix (tool_name h) ''transfer_to_'') = Some ag"
    and "output_mode sv = ''full_history''"
  shows "\<exists>s' ev before.
      handle_tool_calls lib sv s tool_calls = Inr (s', ev)
    \<and> before =
        get_all s (ctx_memory s)
        @ process_regular_tools sv (snd (split_tool_calls sv tool_calls)) []
        @ [\<lparr>role = Tool,
            content = ''Successfully transferred to '' @ agent_name ag
              @ '' for task: '' @ fmt (map_of (tool_kwargs h) ''task'')
              @ '', reason: '' @ fmt (map_of (tool_kwargs h) ''reason''),
            additional_kwargs = [(''tool_call_id'', tool_id h), (''name'', tool_name h)]\<rparr>]
    \<and> get_all s' (ctx_memory s') =
        tl (before @ agent_turns ag (memory_get lib before))
        @ (if add_handoff_back_messages sv
           then create_handoff_back_messages lib (agent_name ag) (name sv) else [])"
proof -
  define ok where "ok = \<lparr>role = Tool,
            content = ''Successfully transferred to '' @ agent_name ag
              @ '' for task: '' @ fmt (map_of (tool_kwargs h) ''task'')
              @ '', reason: '' @ fmt (map_of (tool_kwargs h) ''reason''),
            additional_kwargs = [(''tool_call_id'', tool_id h), (''name'', tool_name h)]\<rparr>"
  define msgs where
    "msgs = process_regular_tools sv (snd (split_tool_calls sv tool_calls)) [] @ [ok]"
  define s1 where "s1 = fst (update_memory s msgs)"
  define before where "before = get_all s (ctx_memory s) @ msgs"
  define hbm where "hbm = create_handoff_back_messages lib (agent_name ag) (name sv)"
  have b: "get_all s1 (ctx_memory s1) = before"
    by (simp add: s1_def before_def update_memory_ctx update_memory_get_all)
  from run_agent_full_history [OF assms(3), of lib s1 ag] b
  obtain s2 where ra: "run_agent lib sv s1 ag = Inr s2"
    and m2: "get_all s2 (ctx_memory s2) = tl (before @ agent_turns ag (memory_get lib before))"
    by auto
  define s3 where "s3 = (if add_handoff_back_messages sv then fst (update_memory s2 hbm) else s2)"
  have run: "handle_tool_calls lib sv s tool_calls = Inr (s3, get_input_event lib s3)"
    using ra
    unfolding single_handoff_unfold [OF assms(1,2)] s1_def msgs_def ok_def s3_def hbm_def
    by (simp add: Let_def)
  have m3: "get_all s3 (ctx_memory s3) =
      tl (before @ agent_turns ag (memory_get lib before))
      @ (if add_handoff_back_messages sv then hbm else [])"
    by (simp add: s3_def m2 update_memory_ctx update_memory_get_all)
  have "before = get_all s (ctx_memory s)
        @ process_regular_tools sv (snd (split_tool_calls sv tool_calls)) [] @ [ok]"
    by (simp add: before_def msgs_def)
  with run m3 show ?thesis
    unfolding ok_def hbm_def by blast
qed

lemma single_handoff_last_message:
  assumes "fst (split_tool_calls sv tool_calls) = [h]"
    and "agents_by_name sv (removeprefix (tool_name h) ''transfer_to_'') = Some ag"
    and "output_mode sv = ''last_message''"
  shows "\<exists>s' ev before after.
      handle_tool_calls lib sv s tool_calls = Inr (s', ev)
    \<and> before =
        get_all s (ctx_memory s)
        @ process_regular_tools sv (snd (split_tool_calls sv tool_calls)) []
        @ [\<lparr>role = Tool,
            content = ''Successfully transferred to '' @ agent_name ag
              @ '' for task: '' @ fmt (map_of (tool_kwargs h) ''task'')
              @ '', reason: '' @ fmt (map_of (tool_kwargs h) ''reason''),
            additional_kwargs = [(''tool_call_id'', tool_id h), (''name'', tool_name h)]\<rparr>]
    \<and> after = before @ agent_turns ag (memory_get lib before)
    \<and> get_all s' (ctx_memory s') =
        after @ [last after]
        @ (if add_handoff_back_messages sv
           then create_handoff_back_messages lib (agent_name ag) (name sv) else [])"
proof -
  define ok where "ok = \<lparr>role = Tool,
            content = ''Successfully transferred to '' @ agent_name ag
              @ '' for task: '' @ fmt (map_of (tool_kwargs h) ''task'')
              @ '', reason: '' @ fmt (map_of (tool_kwargs h) ''reason''),
            additional_kwargs = [(''tool_call_id'', tool_id h), (''name'', tool_name h)]\<rparr>"
  define msgs where
    "msgs = process_regular_tools sv (snd (split_tool_calls sv tool_calls)) [] @ [ok]"
  define s1 where "s1 = fst (update_memory s msgs)"
  define before where "before = get_all s (ctx_memory s) @ msgs"
  define after where "after = before @ agent_turns ag (memory_get lib before)"
  define hbm where "hbm = create_handoff_back_messages lib (agent_name ag) (name sv)"
  have b: "get_all s1 (ctx_memory s1) = before"
    by (simp add: s1_def before_def update_memory_ctx update_memory_get_all)
  have "before \<noteq> []" by (simp add: before_def msgs_def)
  with b have ne: "get_all s1 (ctx_memory s1) \<noteq> []" by simp
  from run_agent_last_message [OF assms(3) ne, of lib ag] b
  obtain s2 where ra: "run_agent lib sv s1 ag = Inr s2"
    and m2: "get_all s2 (ctx_memory s2) = after @ [last after]"
    by (auto simp add: Let_def after_def)
  define s3 where "s3 = (if add_handoff_back_messages sv then fst (update_memory s2 hbm) else s2)"
  have run: "handle_tool_calls lib sv s tool_calls = Inr (s3, get_input_event lib s3)"
    using ra
    unfolding single_handoff_unfold [OF assms(1,2)] s1_def msgs_def ok_def s3_def hbm_def
    by (simp add: Let_def)
  have m3: "get_all s3 (ctx_memory s3) =
      after @ [last after] @ (if add_handoff_back_messages sv then hbm else [])"
    by (simp add: s3_def m2 update_memory_ctx update_memory_get_all)
  have "before = get_all s (ctx_memory s)
        @ process_regular_tools sv (snd (split_tool_calls sv tool_calls)) [] @ [ok]"
    by (simp add: before_def msgs_def)
  with run m3 after_def show ?thesis
    unfolding ok_def hbm_def by blast
qed

text \<open>A turn calls \<^verbatim>\<open>agent.run\<close> at most once, whatever its calls are.\<close>

lemma process_agent_handoffs_runs:
  assumes "process_agent_handoffs lib sv s hs tool_msgs = Inr (s1, tool_msgs1)"
  shows "agent_runs s1 = agent_runs s \<or> (\<exists>r. agent_runs s1 = agent_runs s @ [r])"
proof -
  consider (none) "hs = []" | (one) h where "hs = [h]" | (many) "length hs > 1"
    by (cases hs rule: list.exhaust; cases "tl hs") auto
  then show ?thesis
  proof cases
    case none
    with assms show ?thesis by (simp add: process_agent_handoffs_def)
  next
    case many
    with assms show ?thesis by (simp add: process_agent_handoffs_def Let_def)
  next
    case one
    with assms have pa: "process_agent_handoff lib sv s h tool_msgs = Inr (s1, tool_msgs1)"
      by (simp add: process_agent_handoffs_def)
    show ?thesis
    proof (cases "agents_by_name sv (removeprefix (tool_name h) ''transfer_to_'')")
      case None
      with pa show ?thesis by (simp add: process_agent_handoff_def Let_def)
    next
      case (Some ag)
      define ok where "ok = \<lparr>role = Tool,
                  content = ''Successfully transferred to '' @ agent_name ag
                    @ '' for task: '' @ fmt (map_of (tool_kwargs h) ''task'')
                    @ '', reason: '' @ fmt (map_of (tool_kwargs h) ''reason''),
                  additional_kwargs =
                    [(''tool_call_id'', tool_id h), (''name'', tool_name h)]\<rparr>"
      define s0 where "s0 = fst (update_memory s (tool_msgs @ [ok]))"
      have "get_all s0 (ctx_memory s0) = get_all s (ctx_memory s) @ tool_msgs @ [ok]"
        by (simp add: s0_def update_memory_ctx update_memory_get_all)
      then have "get_all s0 (ctx_memory s0) \<noteq> []" by simp
      from run_agent_runs [OF this, of lib sv ag]
      obtain s2 r where ra: "run_agent lib sv s0 ag = Inr s2"
        and r2: "agent_runs s2 = agent_runs s0 @ [r]"
        by blast
      from pa ra have "s1 = (if add_handoff_back_messages sv
               then fst (update_memory s2
                      (create_handoff_back_messages lib (agent_name ag) (name sv)))
               else s2)"
        unfolding process_agent_handoff_known [OF Some] s0_def ok_def by simp
      then have "agent_runs s1 = agent_runs s2"
        by (simp add: update_memory_runs)
      with r2 show ?thesis
        by (simp add: s0_def update_memory_runs)
    qed
  qed
qed

lemma at_most_one_run_per_turn:
  assumes "handle_tool_calls lib sv s tool_calls = Inr (s', ev)"
  shows "agent_runs s' = agent_runs s \<or> (\<exists>r. agent_runs s' = agent_runs s @ [r])"
proof -
  obtain hs rs where sp: "split_tool_calls sv tool_calls = (hs, rs)"
    by (cases "split_tool_calls sv tool_calls")
  from assms obtain s1 tool_msgs1 where
      pa: "process_agent_handoffs lib sv s hs (process_regular_tools sv rs []) = Inr (s1, tool_msgs1)"
    and s': "s' = fst (update_memory s1 tool_msgs1)"
    by (auto simp add: handle_tool_calls_def sp Let_def case_prod_beta split: sum.splits)
  from s' have "agent_runs s' = agent_runs s1"
    by (simp add: update_memory_runs)
  with process_agent_handoffs_runs [OF pa] show ?thesis by simp
qed

text \<open>The examples, evaluated.\<close>

lemma ex_two_handoffs_split:
  "split_tool_calls (ex_sv ''full_history'') ex_two_handoffs =
     ([\<lparr>tool_id = ''h1'', tool_name = ''transfer_to_researcher'', tool_kwargs = []\<rparr>,
       \<lparr>tool_id = ''h2'', tool_name = ''transfer_to_researcher'', tool_kwargs = []\<rparr>],
      [\<lparr>tool_id = ''c1'', tool_name = ''send_email'', tool_kwargs = []\<rparr>])"
  by (simp add: split_tool_calls_def ex_sv_fields ex_two_handoffs_def ex_env_def ex_agent_def
        underscored_def Let_def)



lemma ex_raw_sv_init:
  "init ex_raw_env True [ex_spaced_agent] [] ''supervisor'' SPNone True ''full_history''
     = Inr ex_raw_sv"
  by (simp add: ex_raw_sv_def init_def init_system_prompt_def setup_agents_def
        setup_tools_def Let_def)




lemma ex_memory_state_memory:
  "get_all (ex_memory_state msgs) (ctx_memory (ex_memory_state msgs)) = msgs"
  by (simp add: get_all_def ex_memory_state_def)

lemma ex_handoff_split:
  "split_tool_calls (ex_sv mode) [ex_handoff] = ([ex_handoff], [])"
  if "mode = ''full_history'' \<or> mode = ''last_message''"
  using that
  by (auto simp add: split_tool_calls_def ex_sv_fields ex_handoff_def
        ex_env_def ex_agent_def underscored_def Let_def)

lemma ex_handoff_agent_mode:
  "agents_by_name (ex_sv mode) (removeprefix (tool_name ex_handoff) ''transfer_to_'')
     = Some ex_agent"
  if "mode = ''full_history'' \<or> mode = ''last_message''"
  using that by (auto simp add: removeprefix_def ex_handoff_def ex_sv_fields)

lemma ex_success_eq:
  "\<lparr>role = Tool,
    content = ''Successfully transferred to '' @ agent_name ex_agent
      @ '' for task: '' @ fmt (map_of (tool_kwargs ex_handoff) ''task'')
      @ '', reason: '' @ fmt (map_of (tool_kwargs ex_handoff) ''reason''),
    additional_kwargs = [(''tool_call_id'', tool_id ex_handoff),
                         (''name'', tool_name ex_handoff)]\<rparr> = ex_success"
  by (simp add: ex_success_def ex_agent_def ex_handoff_def fmt_def)

lemma ex_agent_turns: "agent_turns ex_agent h = [ex_working, ex_done]"
  by (simp add: ex_agent_def)

section \<open>Handoffs\<close>

text \<open>
  C5. When a turn's calls contain two or more handoffs, handling the turn succeeds
  and runs no agent; the memory grows by the regular results followed by one error
  message per requested handoff, in order, each carrying that handoff's call id and
  name and saying that multiple agent handoff tools were selected and only one is
  to be selected.
\<close>

theorem multiple_handoffs_rejected:
  assumes "length (fst (split_tool_calls sv tool_calls)) \<ge> 2"
  shows "\<exists>s'.
      handle_tool_calls lib sv s tool_calls = Inr (s', get_input_event lib s')
    \<and> agent_runs s' = agent_runs s
    \<and> get_all s' (ctx_memory s') =
        get_all s (ctx_memory s)
        @ process_regular_tools sv (snd (split_tool_calls sv tool_calls)) []
        @ map (\<lambda>h. \<lparr>role = Tool,
                     content = ''Multiple agent handoff tools selected: ''
                       @ join '', '' (map tool_name (fst (split_tool_calls sv tool_calls)))
                       @ '' - please select only one.'',
                     additional_kwargs =
                       [(''tool_call_id'', tool_id h), (''name'', tool_name h)]\<rparr>)
            (fst (split_tool_calls sv tool_calls))"
proof -
  obtain hs rs where sp: "split_tool_calls sv tool_calls = (hs, rs)"
    by (cases "split_tool_calls sv tool_calls")
  with assms have len: "length hs > 1" by simp
  let ?errs = "map (\<lambda>h. \<lparr>role = Tool,
                     content = ''Multiple agent handoff tools selected: ''
                       @ join '', '' (map tool_name hs) @ '' - please select only one.'',
                     additional_kwargs =
                       [(''tool_call_id'', tool_id h), (''name'', tool_name h)]\<rparr>) hs"
  let ?msgs = "process_regular_tools sv rs [] @ ?errs"
  let ?s' = "fst (update_memory s ?msgs)"
  from len have hand: "process_agent_handoffs lib sv s hs (process_regular_tools sv rs [])
      = Inr (s, ?msgs)"
    by (simp add: process_agent_handoffs_def Let_def)
  have run: "handle_tool_calls lib sv s tool_calls = Inr (?s', get_input_event lib ?s')"
    by (simp add: handle_tool_calls_def sp hand Let_def case_prod_beta)
  have mem: "get_all ?s' (ctx_memory ?s') = get_all s (ctx_memory s) @ ?msgs"
    by (simp add: update_memory_ctx update_memory_get_all)
  have runs: "agent_runs ?s' = agent_runs s"
    by (rule update_memory_runs)
  from run mem runs show ?thesis by (simp add: sp)
qed

theorem multiple_handoffs_rejected_witness:
  "length (fst (split_tool_calls (ex_sv ''full_history'') ex_two_handoffs)) \<ge> 2
   \<and> (\<exists>s'. handle_tool_calls ex_env (ex_sv ''full_history'') ex_state ex_two_handoffs
               = Inr (s', get_input_event ex_env s')
         \<and> agent_runs s' = agent_runs ex_state
         \<and> map content (get_all s' (ctx_memory s')) =
             [''hi'', ''Tool send_email does not exist'',
              ''Multiple agent handoff tools selected: transfer_to_researcher, transfer_to_researcher - please select only one.'',
              ''Multiple agent handoff tools selected: transfer_to_researcher, transfer_to_researcher - please select only one.'']
         \<and> map (\<lambda>m. map_of (additional_kwargs m) ''tool_call_id'') (get_all s' (ctx_memory s')) =
             [None, Some ''c1'', Some ''h1'', Some ''h2''])"
proof -
  have h: "length (fst (split_tool_calls (ex_sv ''full_history'') ex_two_handoffs)) \<ge> 2"
    by (simp add: ex_two_handoffs_split)
  from multiple_handoffs_rejected [OF h, of ex_env ex_state]
  obtain s' where "handle_tool_calls ex_env (ex_sv ''full_history'') ex_state ex_two_handoffs
               = Inr (s', get_input_event ex_env s')"
     and "agent_runs s' = agent_runs ex_state"
     and "get_all s' (ctx_memory s') =
        get_all ex_state (ctx_memory ex_state)
        @ process_regular_tools (ex_sv ''full_history'')
            (snd (split_tool_calls (ex_sv ''full_history'') ex_two_handoffs)) []
        @ map (\<lambda>h. \<lparr>role = Tool,
                     content = ''Multiple agent handoff tools selected: ''
                       @ join '', '' (map tool_name
                           (fst (split_tool_calls (ex_sv ''full_history'') ex_two_handoffs)))
                       @ '' - please select only one.'',
                     additional_kwargs =
                       [(''tool_call_id'', tool_id h), (''name'', tool_name h)]\<rparr>)
            (fst (split_tool_calls (ex_sv ''full_history'') ex_two_handoffs))"
    by blast
  then show ?thesis using h
    by (simp add: ex_two_handoffs_split ex_sv_fields get_all_def ex_state_def ex_user_def
          create_tool_error_message_def)
qed





section \<open>The code at concrete inputs\<close>

text \<open>
  C1. The code at a concrete handoff, in the state in which \<^verbatim>\<open>_run_agent\<close> is
  entered (the memory holds the user's message, the model's reply and the success
  message). After \<^verbatim>\<open>agent.run\<close>, and before any line of the merge has run, the
  buffer bound in \<^verbatim>\<open>new_ctx\<close> is a new object (address 1, the supervisor's is at
  address 0) with the same chat store and key, and the two messages the agent
  appended through it are already in the supervisor's memory.
\<close>

theorem handoff_memory_is_shared:
  "case run_agent_invoke ex_env (ex_memory_state [ex_user, ex_assistant, ex_success]) ex_agent of
     (memory, new_ctx_memory, s2) \<Rightarrow>
       memory = 0 \<and> ctx_memory s2 = 0 \<and> new_ctx_memory = 1
     \<and> get_all (ex_memory_state [ex_user, ex_assistant, ex_success]) memory
         = [ex_user, ex_assistant, ex_success]
     \<and> buffers s2 new_ctx_memory = buffers s2 memory
     \<and> get_all s2 new_ctx_memory = [ex_user, ex_assistant, ex_success, ex_working, ex_done]
     \<and> get_all s2 memory = [ex_user, ex_assistant, ex_success, ex_working, ex_done]"
  by (simp add: run_agent_invoke_def model_copy_def agent_run_def put_def get_all_def
        ex_memory_state_def ex_agent_def ex_env_def Let_def)

text \<open>
  C2. The code at a concrete turn under \<^verbatim>\<open>full_history\<close>. Before the turn the memory
  holds the user's message and the model's reply; the turn is one handoff to the
  researcher, who appends two messages. Nothing is inserted for the agent, and the
  row deleted at index 0 is the user's message: afterwards the memory holds the
  model's reply, the success message, the agent's two messages and the
  handoff-back messages, and no longer the user's message.
\<close>

theorem full_history_removes_first_message:
  "\<exists>s' ev.
      handle_tool_calls ex_env (ex_sv ''full_history'') (ex_memory_state [ex_user, ex_assistant])
        [ex_handoff] = Inr (s', ev)
    \<and> get_all s' (ctx_memory s') =
        [ex_assistant, ex_success, ex_working, ex_done]
        @ create_handoff_back_messages ex_env ''researcher'' ''supervisor''"
proof -
  have m: "output_mode (ex_sv ''full_history'') = ''full_history''"
    and a: "fst (split_tool_calls (ex_sv ''full_history'') [ex_handoff]) = [ex_handoff]"
    and r: "snd (split_tool_calls (ex_sv ''full_history'') [ex_handoff]) = []"
    by (simp_all add: ex_sv_fields ex_handoff_split)
  have k: "agents_by_name (ex_sv ''full_history'')
             (removeprefix (tool_name ex_handoff) ''transfer_to_'') = Some ex_agent"
    by (simp add: ex_handoff_agent_mode)
  from single_handoff_full_history [OF a k m, of ex_env "ex_memory_state [ex_user, ex_assistant]"]
  show ?thesis
    unfolding ex_success_eq r
    by (auto simp add: ex_memory_state_memory ex_agent_turns ex_sv_fields ex_agent_def)
qed

text \<open>
  C7. The code at the same turn under \<^verbatim>\<open>last_message\<close>. After the success message
  the memory holds both messages of the agent, the intermediate one included, then
  the agent's final message a second time, then the handoff-back messages: it grew
  by three messages and the handoff-back pair, not by one and the pair.
\<close>

theorem last_message_keeps_every_turn:
  "\<exists>s' ev.
      handle_tool_calls ex_env (ex_sv ''last_message'') (ex_memory_state [ex_user, ex_assistant])
        [ex_handoff] = Inr (s', ev)
    \<and> get_all s' (ctx_memory s') =
        [ex_user, ex_assistant, ex_success, ex_working, ex_done, ex_done]
        @ create_handoff_back_messages ex_env ''researcher'' ''supervisor''"
proof -
  have m: "output_mode (ex_sv ''last_message'') = ''last_message''"
    and a: "fst (split_tool_calls (ex_sv ''last_message'') [ex_handoff]) = [ex_handoff]"
    and r: "snd (split_tool_calls (ex_sv ''last_message'') [ex_handoff]) = []"
    by (simp_all add: ex_sv_fields ex_handoff_split)
  have k: "agents_by_name (ex_sv ''last_message'')
             (removeprefix (tool_name ex_handoff) ''transfer_to_'') = Some ex_agent"
    by (simp add: ex_handoff_agent_mode)
  from single_handoff_last_message [OF a k m, of ex_env "ex_memory_state [ex_user, ex_assistant]"]
  show ?thesis
    unfolding ex_success_eq r
    by (auto simp add: ex_memory_state_memory ex_agent_turns ex_sv_fields ex_agent_def)
qed

section \<open>Duplicate names\<close>

text \<open>
  Two agents with the same normalized name make \<^const>\<open>setup_agents\<close>, and so the
  constructor, fail.
\<close>

lemma setup_agents_loop_duplicate:
  assumes "\<not> distinct (map (\<lambda>a. normalize_agent_name lib (agent_name a)) ags)
           \<or> (\<exists>a \<in> set ags. normalize_agent_name lib (agent_name a) \<in> dom by_name)"
  shows "\<exists>e. setup_agents_loop lib ags (names, by_name) = Inl (ValueError e)"
  using assms
proof (induction ags arbitrary: names by_name)
  case Nil
  then show ?case by simp
next
  case (Cons a rest)
  let ?n = "normalize_agent_name lib (agent_name a)"
  show ?case
  proof (cases "?n \<in> dom by_name")
    case True
    then show ?thesis by (simp add: Let_def)
  next
    case False
    with Cons.prems have
      "\<not> distinct (map (\<lambda>a. normalize_agent_name lib (agent_name a)) rest)
       \<or> (\<exists>b \<in> set rest. normalize_agent_name lib (agent_name b) \<in> dom (by_name(?n \<mapsto> a)))"
      by auto
    then have "\<exists>e. setup_agents_loop lib rest (insert ?n names, by_name(?n \<mapsto> a))
                 = Inl (ValueError e)"
      by (rule Cons.IH)
    moreover from False have "setup_agents_loop lib (a # rest) (names, by_name)
        = setup_agents_loop lib rest (insert ?n names, by_name(?n \<mapsto> a))"
      by (simp add: Let_def)
    ultimately show ?thesis by simp
  qed
qed

lemma init_rejects_duplicate_agents:
  assumes "\<not> distinct (map (\<lambda>a. normalize_agent_name lib (agent_name a)) ags)"
  shows "\<exists>e. init lib fc ags ts nm sp hb mode = Inl e"
proof -
  from setup_agents_loop_duplicate [of lib ags Map.empty "{}"] assms
  obtain e where "setup_agents lib ags = Inl (ValueError e)"
    by (auto simp add: setup_agents_def)
  then show ?thesis
    by (simp add: init_def split: sum.split)
qed

text \<open>
  C6. The code at two concrete registries: construction succeeds with two tools
  that share the name \<^verbatim>\<open>search\<close> (the lookup then resolves to the later one), and
  with a tool whose name is that of the handoff tool derived from an agent.
\<close>

theorem duplicate_tool_names_accepted:
  "(\<exists>sv. init ex_env True [] [ex_search, ex_search_other] ''supervisor'' SPNone True
            ''full_history'' = Inr sv
        \<and> map metadata_name (tools sv) = [''search'', ''search'']
        \<and> map_option (\<lambda>t. tool_call t []) (tools_by_name sv ''search'') = Some (Returns ''other''))
   \<and> (\<exists>sv. init ex_env True [ex_agent] [ex_shadow] ''supervisor'' SPNone True
            ''full_history'' = Inr sv
        \<and> map metadata_name (tools sv) = [''transfer_to_researcher'', ''transfer_to_researcher''])"
  by (simp add: init_def init_system_prompt_def setup_agents_def setup_tools_def
        dict_by_name_def ex_env_def ex_agent_def underscored_def ex_search_def
        ex_search_other_def ex_shadow_def Let_def)

section \<open>The system prompt\<close>

text \<open>
  The forms the constructor accepts: no prompt and a string. The model is queried
  with the resulting system messages in front of the chat history.
\<close>

lemma init_system_prompt_accepted:
  "init_system_prompt SPNone = Inr []"
  "init_system_prompt (SPStr p) =
     Inr (if p = [] then [] else [\<lparr>role = System, content = p, additional_kwargs = []\<rparr>])"
  by (simp_all add: init_system_prompt_def)

lemma llm_chat_history_prepends:
  "take (length (system_prompt sv)) (llm_chat_history sv chat_history) = system_prompt sv"
  "drop (length (system_prompt sv)) (llm_chat_history sv chat_history) = chat_history"
  by (simp_all add: llm_chat_history_def)

text \<open>
  C10. The code at two concrete system prompts: construction with a list of two
  system messages, and with a single system message object, fails with
  \<^verbatim>\<open>TypeError\<close>.
\<close>

theorem system_prompt_messages_rejected:
  "init ex_env True [] [ex_search] ''supervisor''
     (SPMessageList [\<lparr>role = System, content = ''be brief'', additional_kwargs = []\<rparr>,
                     \<lparr>role = System, content = ''be kind'', additional_kwargs = []\<rparr>])
     True ''full_history''
     = Inl (TypeError ''isinstance() argument 2 cannot be a parameterized generic'')
   \<and> init ex_env True [] [ex_search] ''supervisor''
     (SPMessage \<lparr>role = System, content = ''be brief'', additional_kwargs = []\<rparr>)
     True ''full_history''
     = Inl (TypeError ''isinstance() argument 2 cannot be a parameterized generic'')"
  by (simp add: init_def init_system_prompt_def)

end
